theory Spec2Isabelle
  imports Complex_Main "HOL-Library.Word" "HOL-Library.Multiset"
begin

unbundle bit_operations_syntax

section \<open>SSH certificate authority functions\<close>

text \<open>
  A shallow embedding of the SSH certificate authority functions. A JavaScript string
  is a \<^typ>\<open>string\<close> (a list of code units), a thrown exception is the \<open>Inl\<close> side
  of a sum, and everything the functions reach outside themselves (the duration parser
  \<^verbatim>\<open>ms\<close>, the two pattern validators, the random source, the file system and the
  external \<^verbatim>\<open>ssh-keygen\<close> process) is an explicit argument.
\<close>

subsection \<open>Errors\<close>

datatype error =
    BadRequestError string   \<comment> \<open>\<^verbatim>\<open>new BadRequestError({ message })\<close>\<close>
  | Error string             \<comment> \<open>\<^verbatim>\<open>new Error(message)\<close>\<close>
  | SystemError string       \<comment> \<open>thrown by \<^verbatim>\<open>fs\<close>, \<^verbatim>\<open>child_process\<close> or \<^verbatim>\<open>ms\<close>\<close>

fun isBadRequest :: "error + 'a \<Rightarrow> bool" where
  "isBadRequest (Inl (BadRequestError m)) = True"
| "isBadRequest r = False"

subsection \<open>The JavaScript string and array methods the code calls\<close>

fun every :: "('a \<Rightarrow> bool) \<Rightarrow> 'a list \<Rightarrow> bool" where
  "every f [] = True"
| "every f (x # xs) = (if f x then every f xs else False)"

fun some :: "('a \<Rightarrow> bool) \<Rightarrow> 'a list \<Rightarrow> bool" where
  "some f [] = False"
| "some f (x # xs) = (if f x then True else some f xs)"

fun arr_includes :: "'a list \<Rightarrow> 'a \<Rightarrow> bool" where
  "arr_includes [] v = False"
| "arr_includes (x # xs) v = (if x = v then True else arr_includes xs v)"

definition startsWith :: "string \<Rightarrow> string \<Rightarrow> bool" where
  "startsWith s p = (take (length p) s = p)"

definition endsWith :: "string \<Rightarrow> string \<Rightarrow> bool" where
  "endsWith s p = (length p \<le> length s \<and> drop (length s - length p) s = p)"

definition slice :: "string \<Rightarrow> nat \<Rightarrow> string" where
  "slice s n = drop n s"

text \<open>\<^verbatim>\<open>String.prototype.includes\<close>: the needle occurs somewhere as a substring.\<close>

fun str_includes :: "string \<Rightarrow> string \<Rightarrow> bool" where
  "str_includes [] p = (p = [])"
| "str_includes (c # cs) p = (if startsWith (c # cs) p then True else str_includes cs p)"

text \<open>
  \<^verbatim>\<open>a?.m(x)\<close> on a field that may be null or undefined: the call is skipped and the
  expression is \<^verbatim>\<open>undefined\<close>, written \<open>None\<close>.
\<close>

definition optcall :: "'a option \<Rightarrow> ('a \<Rightarrow> 'b) \<Rightarrow> 'b option" where
  "optcall a m = (case a of None \<Rightarrow> None | Some v \<Rightarrow> Some (m v))"

text \<open>\<^verbatim>\<open>e ?? false\<close>, and the truthiness of a value that is a boolean or undefined.\<close>

definition orFalse :: "bool option \<Rightarrow> bool" where
  "orFalse b = (case b of None \<Rightarrow> False | Some v \<Rightarrow> v)"

definition truthy :: "bool option \<Rightarrow> bool" where
  "truthy b = (case b of None \<Rightarrow> False | Some v \<Rightarrow> v)"

subsection \<open>Templates and certificate types\<close>

text \<open>
  The fields of \<^verbatim>\<open>TSshCertificateTemplates\<close> that the functions read. The two
  lists are read through \<^verbatim>\<open>?.\<close>, so they may be absent.
\<close>

record TSshCertificateTemplates =
  allowUserCertificates :: bool
  allowHostCertificates :: bool
  allowedUsers :: "string list option"
  allowedHosts :: "string list option"
  ttl :: string
  maxTTL :: string

text \<open>
  \<^verbatim>\<open>SshCertType\<close>; \<open>UnrecognizedType\<close> stands for any run-time value outside the
  enum, which is what the \<^verbatim>\<open>default\<close> branch of the switch receives.
\<close>

datatype SshCertType = USER | HOST | UnrecognizedType

subsection \<open>validateSshCertificateType\<close>

definition validateSshCertificateType ::
  "TSshCertificateTemplates \<Rightarrow> SshCertType \<Rightarrow> error + unit" where
  "validateSshCertificateType template certType =
     (if \<not> allowUserCertificates template \<and> certType = USER
      then Inl (BadRequestError
             ''Failed to validate user certificate type due to template restriction'')
      else if \<not> allowHostCertificates template \<and> certType = HOST
      then Inl (BadRequestError
             ''Failed to validate host certificate type due to template restriction'')
      else Inr ())"

subsection \<open>validateSshCertificatePrincipals\<close>

text \<open>
  \<open>isValidUserPattern\<close> and \<open>isValidHostPattern\<close> are imported from the template
  validators module; they are arguments here.
\<close>

definition userPrincipalCallback ::
  "(string \<Rightarrow> bool) \<Rightarrow> TSshCertificateTemplates \<Rightarrow> bool \<Rightarrow> string \<Rightarrow> bool" where
  "userPrincipalCallback isValidUserPattern template allowsAllUsers pr =
     (if pr = ''*'' then False
      else if allowsAllUsers then isValidUserPattern pr
      else truthy (optcall (allowedUsers template) (\<lambda>us. arr_includes us pr)))"

definition allowedHostCallback :: "string \<Rightarrow> string \<Rightarrow> bool" where
  "allowedHostCallback pr allowedHost =
     (if startsWith allowedHost ''*.''
      then (let baseDomain = slice allowedHost 2
            in endsWith pr (''.'' @ baseDomain))
      else pr = allowedHost)"

definition hostPrincipalCallback ::
  "(string \<Rightarrow> bool) \<Rightarrow> TSshCertificateTemplates \<Rightarrow> bool \<Rightarrow> string \<Rightarrow> bool" where
  "hostPrincipalCallback isValidHostPattern template allowsAllHosts pr =
     (if str_includes pr ''*'' then False
      else if allowsAllHosts then isValidHostPattern pr
      else if isValidHostPattern pr
           then truthy (optcall (allowedHosts template)
                          (\<lambda>hs. some (allowedHostCallback pr) hs))
           else False)"

definition validateSshCertificatePrincipals ::
  "(string \<Rightarrow> bool) \<Rightarrow> (string \<Rightarrow> bool) \<Rightarrow>
   SshCertType \<Rightarrow> TSshCertificateTemplates \<Rightarrow> string list \<Rightarrow> error + bool" where
  "validateSshCertificatePrincipals isValidUserPattern isValidHostPattern
       certType template principals =
     (case certType of
        USER \<Rightarrow>
          (let allowsAllUsers =
                 orFalse (optcall (allowedUsers template) (\<lambda>us. arr_includes us ''*''))
           in Inr (every (userPrincipalCallback isValidUserPattern template allowsAllUsers)
                     principals))
      | HOST \<Rightarrow>
          (let allowsAllHosts =
                 orFalse (optcall (allowedHosts template) (\<lambda>hs. arr_includes hs ''*''))
           in Inr (every (hostPrincipalCallback isValidHostPattern template allowsAllHosts)
                     principals))
      | UnrecognizedType \<Rightarrow>
          Inl (BadRequestError
            ''Failed to validate SSH certificate principals due to unrecognized requested certificate type''))"

subsection \<open>validateSshCertificateTtl\<close>

text \<open>
  The values that can flow through the function: a finite number, \<^verbatim>\<open>NaN\<close> or
  \<^verbatim>\<open>undefined\<close>. Finite numbers are exact rationals here; the floating-point
  rounding of \<^verbatim>\<open>/ 1000\<close> is not modelled.
\<close>

datatype jsval = Undefined | NaN | Num rat

text \<open>\<^verbatim>\<open>a > b\<close>: false as soon as one side is not a number.\<close>

fun js_gt :: "jsval \<Rightarrow> jsval \<Rightarrow> bool" where
  "js_gt (Num a) (Num b) = (b < a)"
| "js_gt a b = False"

text \<open>\<^verbatim>\<open>a / k\<close> for a non-zero numeric literal \<open>k\<close>: \<^verbatim>\<open>undefined / k\<close> is \<^verbatim>\<open>NaN\<close>.\<close>

fun js_div :: "jsval \<Rightarrow> rat \<Rightarrow> jsval" where
  "js_div (Num a) k = Num (a / k)"
| "js_div a k = NaN"

text \<open>
  The duration parser \<open>ms\<close> (the npm package) is an argument: it maps a duration
  string to a number of milliseconds, yields \<^verbatim>\<open>undefined\<close> on a string it cannot
  parse, and may throw. \<^verbatim>\<open>!ttl\<close> holds for \<^verbatim>\<open>undefined\<close> and for the empty string.
\<close>

definition validateSshCertificateTtl ::
  "(string \<Rightarrow> error + jsval) \<Rightarrow> TSshCertificateTemplates \<Rightarrow> string option \<Rightarrow> error + jsval"
  where
  "validateSshCertificateTtl ms template ttlArg =
     (case ttlArg of
        None \<Rightarrow> ms (ttl template)
      | Some t \<Rightarrow>
          if t = [] then ms (ttl template)
          else (case ms t of
                  Inl e \<Rightarrow> Inl e
                | Inr a \<Rightarrow>
                    (case ms (maxTTL template) of
                       Inl e \<Rightarrow> Inl e
                     | Inr b \<Rightarrow>
                         if js_gt a b
                         then Inl (BadRequestError
                           ''Failed TTL validation due to TTL being greater than configured max TTL on template'')
                         else (case ms t of
                                 Inl e \<Rightarrow> Inl e
                               | Inr c \<Rightarrow> Inr (js_div c 1000)))))"

text \<open>
  Values of the duration parser on the strings used below: \<^verbatim>\<open>ms("1h")\<close> is
  3600000, \<^verbatim>\<open>ms("90m")\<close> is 5400000, \<^verbatim>\<open>ms("0s")\<close> is 0; every other string is
  left unparsed.
\<close>

definition ms_sample :: "string \<Rightarrow> error + jsval" where
  "ms_sample s =
     (if s = ''1h'' then Inr (Num 3600000)
      else if s = ''2h'' then Inr (Num 7200000)
      else if s = ''3h'' then Inr (Num 10800000)
      else if s = ''90m'' then Inr (Num 5400000)
      else if s = ''0s'' then Inr (Num 0)
      else Inr Undefined)"

definition template_1h_2h :: TSshCertificateTemplates where
  "template_1h_2h =
     \<lparr> allowUserCertificates = True, allowHostCertificates = True,
       allowedUsers = Some [''*''], allowedHosts = Some [''*''],
       ttl = ''1h'', maxTTL = ''2h'' \<rparr>"

subsection \<open>createSshCertSerialNumber\<close>

type_synonym byte = "8 word"

definition hexDigit :: "nat \<Rightarrow> char" where
  "hexDigit n = ''0123456789abcdef'' ! (n mod 16)"

text \<open>\<^verbatim>\<open>Buffer.toString("hex")\<close>: two lower-case hex digits per byte.\<close>

definition byteToHex :: "byte \<Rightarrow> string" where
  "byteToHex b = [hexDigit (unat b div 16), hexDigit (unat b mod 16)]"

definition toStringHex :: "byte list \<Rightarrow> string" where
  "toStringHex bs = concat (map byteToHex bs)"

definition hexValue :: "char \<Rightarrow> nat option" where
  "hexValue c =
     (let n = (of_char c :: nat)
      in if 48 \<le> n \<and> n \<le> 57 then Some (n - 48)
         else if 97 \<le> n \<and> n \<le> 102 then Some (n - 87)
         else if 65 \<le> n \<and> n \<le> 70 then Some (n - 55)
         else None)"

fun parseHexDigits :: "nat \<Rightarrow> string \<Rightarrow> nat option" where
  "parseHexDigits acc [] = Some acc"
| "parseHexDigits acc (c # cs) =
     (case hexValue c of None \<Rightarrow> None | Some d \<Rightarrow> parseHexDigits (acc * 16 + d) cs)"

text \<open>
  \<^verbatim>\<open>BigInt(s)\<close> on a hexadecimal literal \<^verbatim>\<open>0x...\<close>, the only form the code passes;
  \<open>None\<close> is the \<^verbatim>\<open>SyntaxError\<close>.
\<close>

definition BigInt :: "string \<Rightarrow> nat option" where
  "BigInt s =
     (if startsWith s ''0x'' \<and> 2 < length s then parseHexDigits 0 (slice s 2) else None)"

definition digitChar :: "nat \<Rightarrow> char" where
  "digitChar n = ''0123456789'' ! (n mod 10)"

text \<open>\<^verbatim>\<open>toString(10)\<close> of a non-negative BigInt.\<close>

fun toString10 :: "nat \<Rightarrow> string" where
  "toString10 n =
     (if n < 10 then [digitChar n] else toString10 (n div 10) @ [digitChar (n mod 10)])"

text \<open>
  \<open>randomBytes\<close> is what \<^verbatim>\<open>crypto.randomBytes(8)\<close> delivered. Writing index 0 of a
  buffer does nothing when the buffer is empty, as \<open>list_update\<close> does.
\<close>

definition createSshCertSerialNumber :: "byte list \<Rightarrow> error + string" where
  "createSshCertSerialNumber randomBytes =
     (let masked = randomBytes[0 := (randomBytes ! 0) AND 0x7f]
      in case BigInt (''0x'' @ toStringHex masked) of
           None \<Rightarrow> Inl (Error ''SyntaxError'')
         | Some n \<Rightarrow> Inr (toString10 n))"

text \<open>
  The reading of a serial: the number a string of decimal digits denotes, and the
  big-endian value of a byte sequence.
\<close>

definition decimalDigit :: "char \<Rightarrow> nat option" where
  "decimalDigit c =
     (let n = (of_char c :: nat) in if 48 \<le> n \<and> n \<le> 57 then Some (n - 48) else None)"

fun decimalFrom :: "nat \<Rightarrow> string \<Rightarrow> nat option" where
  "decimalFrom acc [] = Some acc"
| "decimalFrom acc (c # cs) =
     (case decimalDigit c of None \<Rightarrow> None | Some d \<Rightarrow> decimalFrom (acc * 10 + d) cs)"

definition decimalValue :: "string \<Rightarrow> nat option" where
  "decimalValue s = (if s = [] then None else decimalFrom 0 s)"

fun bigEndian :: "nat \<Rightarrow> byte list \<Rightarrow> nat" where
  "bigEndian acc [] = acc"
| "bigEndian acc (b # bs) = bigEndian (acc * 256 + unat b) bs"

subsection \<open>The file system and the external process\<close>

text \<open>
  The working directory is a map from file names to contents, threaded through every
  call. An operation returns its result, or the exception it throws, together with the
  directory it leaves behind: files survive an exception. File modes are not part of
  the state, so \<^verbatim>\<open>chmodSync\<close> only checks that the file is there (the mode
  \<^verbatim>\<open>0o600\<close> is 384).
\<close>

type_synonym fs = "string \<rightharpoonup> string"

type_synonym 'a io = "fs \<Rightarrow> (error + 'a) \<times> fs"

definition ret :: "'a \<Rightarrow> 'a io" where
  "ret a = (\<lambda>s. (Inr a, s))"

definition throw :: "error \<Rightarrow> 'a io" where
  "throw e = (\<lambda>s. (Inl e, s))"

text \<open>Sequencing: an exception in the first statement skips the rest.\<close>

definition andThen :: "'a io \<Rightarrow> ('a \<Rightarrow> 'b io) \<Rightarrow> 'b io" where
  "andThen m f = (\<lambda>s. case m s of (Inl e, s') \<Rightarrow> (Inl e, s') | (Inr a, s') \<Rightarrow> f a s')"

definition existsSync :: "string \<Rightarrow> bool io" where
  "existsSync p = (\<lambda>s. (Inr (s p \<noteq> None), s))"

definition unlinkSync :: "string \<Rightarrow> unit io" where
  "unlinkSync p =
     (\<lambda>s. if s p = None then (Inl (SystemError ''ENOENT''), s) else (Inr (), s(p := None)))"

definition writeFileSync :: "string \<Rightarrow> string \<Rightarrow> unit io" where
  "writeFileSync p d = (\<lambda>s. (Inr (), s(p \<mapsto> d)))"

definition chmodSync :: "string \<Rightarrow> nat \<Rightarrow> unit io" where
  "chmodSync p mode = (\<lambda>s. if s p = None then (Inl (SystemError ''ENOENT''), s) else (Inr (), s))"

definition readFileSync :: "string \<Rightarrow> string io" where
  "readFileSync p =
     (\<lambda>s. case s p of None \<Rightarrow> (Inl (SystemError ''ENOENT''), s) | Some d \<Rightarrow> (Inr d, s))"

text \<open>
  The external process is an argument \<open>exec\<close>: given the command line and the
  directory it answers with the directory it leaves and, when it exits non-zero, the
  exception \<^verbatim>\<open>execSync\<close> throws.
\<close>

type_synonym process = "string \<Rightarrow> fs \<Rightarrow> error option \<times> fs"

definition execSync :: "process \<Rightarrow> string \<Rightarrow> unit io" where
  "execSync exec command =
     (\<lambda>s. case exec command s of (None, s') \<Rightarrow> (Inr (), s') | (Some e, s') \<Rightarrow> (Inl e, s'))"

text \<open>\<^verbatim>\<open>if (fs.existsSync(f)) fs.unlinkSync(f);\<close>\<close>

definition unlinkIfExists :: "string \<Rightarrow> unit io" where
  "unlinkIfExists f = andThen (existsSync f) (\<lambda>b. if b then unlinkSync f else ret ())"

text \<open>\<^verbatim>\<open>Array.prototype.join\<close>, and the two quote characters of the command lines.\<close>

fun join :: "string \<Rightarrow> string list \<Rightarrow> string" where
  "join sep [] = []"
| "join sep [x] = x"
| "join sep (x # y # ys) = x @ sep @ join sep (y # ys)"

definition dquote :: string where
  "dquote = [CHR 0x22]"

definition squote :: string where
  "squote = [CHR 0x27]"

subsection \<open>createSshKeyPair\<close>

text \<open>\<open>UnrecognizedAlgorithm\<close> is any value that reaches the \<^verbatim>\<open>default\<close> branch.\<close>

datatype CertKeyAlgorithm = RSA_2048 | RSA_4096 | ECDSA_P256 | ECDSA_P384 | UnrecognizedAlgorithm

fun keyTypeAndBits :: "CertKeyAlgorithm \<Rightarrow> (string \<times> string) option" where
  "keyTypeAndBits RSA_2048 = Some (''rsa'', ''2048'')"
| "keyTypeAndBits RSA_4096 = Some (''rsa'', ''4096'')"
| "keyTypeAndBits ECDSA_P256 = Some (''ecdsa'', ''256'')"
| "keyTypeAndBits ECDSA_P384 = Some (''ecdsa'', ''384'')"
| "keyTypeAndBits UnrecognizedAlgorithm = None"

text \<open>\<open>idBytes\<close> is what \<^verbatim>\<open>crypto.randomBytes(8)\<close> delivered for \<^verbatim>\<open>uniqueId\<close>.\<close>

definition createSshKeyPair ::
  "process \<Rightarrow> byte list \<Rightarrow> CertKeyAlgorithm \<Rightarrow> string \<Rightarrow> (string \<times> string) io" where
  "createSshKeyPair exec idBytes keyAlgorithm comment =
     (let uniqueId = toStringHex idBytes;
          privateKeyFile = ''ssh_key_'' @ uniqueId;
          publicKeyFile = privateKeyFile @ ''.pub''
      in andThen (unlinkIfExists publicKeyFile) (\<lambda>_.
         andThen (unlinkIfExists privateKeyFile) (\<lambda>_.
         case keyTypeAndBits keyAlgorithm of
           None \<Rightarrow> throw (Error
             ''Failed to produce SSH CA key pair generation command due to unrecognized key algorithm'')
         | Some (keyType, keyBits) \<Rightarrow>
         andThen (execSync exec
                    (''ssh-keygen -t '' @ keyType @ '' -b '' @ keyBits @ '' -f '' @ privateKeyFile
                       @ '' -N '' @ squote @ squote @ '' -C '' @ dquote @ comment @ dquote)) (\<lambda>_.
         andThen (readFileSync publicKeyFile) (\<lambda>publicKey.
         andThen (readFileSync privateKeyFile) (\<lambda>privateKey.
         andThen (unlinkSync privateKeyFile) (\<lambda>_.
         andThen (unlinkSync publicKeyFile) (\<lambda>_.
         ret (publicKey, privateKey)))))))))"

subsection \<open>getSshPublicKey\<close>

definition getSshPublicKey :: "process \<Rightarrow> byte list \<Rightarrow> string \<Rightarrow> string io" where
  "getSshPublicKey exec idBytes privateKey =
     (let uniqueId = toStringHex idBytes;
          privateKeyFile = ''ssh_key_'' @ uniqueId;
          publicKeyFile = privateKeyFile @ ''.pub''
      in andThen (unlinkIfExists publicKeyFile) (\<lambda>_.
         andThen (unlinkIfExists privateKeyFile) (\<lambda>_.
         andThen (writeFileSync privateKeyFile privateKey) (\<lambda>_.
         andThen (chmodSync privateKeyFile 384) (\<lambda>_.
         andThen (execSync exec
                    (''ssh-keygen -y -f '' @ privateKeyFile @ '' > '' @ publicKeyFile)) (\<lambda>_.
         andThen (readFileSync publicKeyFile) (\<lambda>publicKey.
         andThen (unlinkSync privateKeyFile) (\<lambda>_.
         andThen (unlinkSync publicKeyFile) (\<lambda>_.
         ret publicKey)))))))))"

subsection \<open>createSshCert\<close>

text \<open>
  The fields of the argument object are separate arguments. \<open>ttlSeconds\<close> is the field
  \<^verbatim>\<open>ttl\<close>, a whole number of seconds, interpolated in decimal; \<open>idBytes\<close> and
  \<open>serialBytes\<close> are the two draws from \<^verbatim>\<open>crypto.randomBytes(8)\<close>, in order.
\<close>

definition numberToString :: "int \<Rightarrow> string" where
  "numberToString i = (if i < 0 then ''-'' @ toString10 (nat (- i)) else toString10 (nat i))"

definition createSshCert ::
  "process \<Rightarrow> byte list \<Rightarrow> byte list \<Rightarrow>
   string \<Rightarrow> string \<Rightarrow> string \<Rightarrow> string list \<Rightarrow> int \<Rightarrow> SshCertType \<Rightarrow> (string \<times> string) io"
  where
  "createSshCert exec idBytes serialBytes
       caPrivateKey userPublicKey keyId principals ttlSeconds certType =
     (let uniqueId = toStringHex idBytes;
          publicKeyFile = ''user_key_'' @ uniqueId @ ''.pub'';
          privateKeyFile = ''ssh_ca_key_'' @ uniqueId;
          signedPublicKeyFile = ''user_key_'' @ uniqueId @ ''-cert.pub''
      in andThen (unlinkIfExists publicKeyFile) (\<lambda>_.
         andThen (unlinkIfExists privateKeyFile) (\<lambda>_.
         andThen (unlinkIfExists signedPublicKeyFile) (\<lambda>_.
         andThen (writeFileSync publicKeyFile userPublicKey) (\<lambda>_.
         andThen (writeFileSync privateKeyFile caPrivateKey) (\<lambda>_.
         andThen (chmodSync privateKeyFile 384) (\<lambda>_.
         case createSshCertSerialNumber serialBytes of
           Inl e \<Rightarrow> throw e
         | Inr serialNumber \<Rightarrow>
         (let certOptions = join '' '' (filter (\<lambda>opt. opt \<noteq> [])
                [ ''-s '' @ privateKeyFile,
                  ''-I '' @ dquote @ keyId @ dquote,
                  ''-n '' @ dquote @ join '','' principals @ dquote,
                  ''-V +'' @ numberToString ttlSeconds @ ''s'',
                  ''-z '' @ serialNumber,
                  (if certType = HOST then ''-h'' else []),
                  publicKeyFile ]);
              command = ''ssh-keygen '' @ certOptions
          in andThen (execSync exec command) (\<lambda>_.
             andThen (readFileSync signedPublicKeyFile) (\<lambda>signedPublicKey.
             andThen (unlinkSync publicKeyFile) (\<lambda>_.
             andThen (unlinkSync privateKeyFile) (\<lambda>_.
             andThen (unlinkSync signedPublicKeyFile) (\<lambda>_.
             ret (serialNumber, signedPublicKey))))))))))))))"

subsection \<open>Sample inputs and the specification's reading of host matching\<close>

text \<open>
  A pattern validator that accepts every string; the theorems below hold for every
  validator, and this one is used where a concrete one is needed.
\<close>

definition acceptAll :: "string \<Rightarrow> bool" where
  "acceptAll s = True"

text \<open>A hostname validator that refuses the empty string and every string with a \<open>*\<close>.\<close>

definition noWildcard :: "string \<Rightarrow> bool" where
  "noWildcard s = (s \<noteq> [] \<and> CHR ''*'' \<notin> set s)"

definition template_example_com :: TSshCertificateTemplates where
  "template_example_com =
     \<lparr> allowUserCertificates = True, allowHostCertificates = True,
       allowedUsers = None, allowedHosts = Some [''*.example.com''],
       ttl = ''1h'', maxTTL = ''2h'' \<rparr>"

definition hostEntries :: "TSshCertificateTemplates \<Rightarrow> string list" where
  "hostEntries template = (case allowedHosts template of None \<Rightarrow> [] | Some hs \<Rightarrow> hs)"

text \<open>
  The specification's rule for a host principal, in its own words: valid hostname
  syntax, and either an exact member of the allowed hosts or ending in \<open>.D\<close> for some
  entry \<open>*.D\<close>.
\<close>

definition specHostAccept ::
  "(string \<Rightarrow> bool) \<Rightarrow> TSshCertificateTemplates \<Rightarrow> string \<Rightarrow> bool" where
  "specHostAccept validHostname template p =
     (validHostname p \<and>
      (p \<in> set (hostEntries template) \<or>
       (\<exists>e \<in> set (hostEntries template).
          take 2 e = ''*.'' \<and> endsWith p (''.'' @ drop 2 e))))"

text \<open>
  Two external processes: one that exits non-zero and touches nothing, one that exits
  zero after writing the given files. \<open>zeroBytes\<close> is a draw of eight zero bytes.
\<close>

definition exec_fails :: process where
  "exec_fails command s = (Some (SystemError ''Command failed''), s)"

definition exec_creating :: "(string \<times> string) list \<Rightarrow> process" where
  "exec_creating files command s = (None, s ++ map_of files)"

definition zeroBytes :: "byte list" where
  "zeroBytes = [0, 0, 0, 0, 0, 0, 0, 0]"

text \<open>A postcondition on the directory a call leaves when it returns normally.\<close>

definition ensures :: "'a io \<Rightarrow> (fs \<Rightarrow> bool) \<Rightarrow> bool" where
  "ensures m Q = (\<forall>s. case fst (m s) of Inl e \<Rightarrow> True | Inr a \<Rightarrow> Q (snd (m s)))"

section \<open>Properties\<close>

declare toString10.simps [simp del]

subsection \<open>Array and string methods\<close>

lemma every_iff: "every f xs = (\<forall>x\<in>set xs. f x)"
  by (induction xs) auto

lemma some_iff: "some f xs = (\<exists>x\<in>set xs. f x)"
  by (induction xs) auto

lemma arr_includes_iff: "arr_includes xs v = (v \<in> set xs)"
  by (induction xs) auto

lemma str_includes_char: "str_includes s [c] = (c \<in> set s)"
  by (induction s) (auto simp: startsWith_def)

lemma wildcard_entry_self: "take 2 e = ''*.'' \<Longrightarrow> endsWith e (''.'' @ drop 2 e)"
proof -
  assume a: "take 2 e = ''*.''"
  then obtain r where "e = ''*.'' @ r"
    by (metis append_take_drop_id)
  then show ?thesis by (simp add: endsWith_def)
qed

lemma some_allowedHostCallback:
  "(\<exists>e \<in> set hs. allowedHostCallback p e)
     = (p \<in> set hs \<or> (\<exists>e \<in> set hs. take 2 e = ''*.'' \<and> endsWith p (''.'' @ drop 2 e)))"
proof -
  have "allowedHostCallback p e
          = (if take 2 e = ''*.'' then endsWith p (''.'' @ drop 2 e) else p = e)" for e
    by (simp add: allowedHostCallback_def startsWith_def slice_def numeral_2_eq_2)
  moreover have "take 2 e = ''*.'' \<Longrightarrow> endsWith e (''.'' @ drop 2 e)" for e
    by (rule wildcard_entry_self)
  ultimately show ?thesis by (metis (full_types))
qed

subsection \<open>Certificate type\<close>

text \<open>
  Claim C7. For a certificate type that is User or Host, \<open>validateSshCertificateType\<close>
  throws a \<open>BadRequestError\<close> exactly when the type is Host and the template does not
  allow host certificates, or the type is User and the template does not allow user
  certificates; in every other case it returns normally, with no value.
\<close>

theorem validateSshCertificateType_policy:
  "certType \<in> {USER, HOST} \<Longrightarrow>
     (if (certType = HOST \<and> \<not> allowHostCertificates template)
          \<or> (certType = USER \<and> \<not> allowUserCertificates template)
      then isBadRequest (validateSshCertificateType template certType)
      else validateSshCertificateType template certType = Inr ())"
  by (auto simp: validateSshCertificateType_def)

theorem validateSshCertificateType_policy_witness:
  "HOST \<in> {USER, HOST} \<and> USER \<in> {USER, HOST}
   \<and> isBadRequest (validateSshCertificateType
                     (template_example_com\<lparr>allowHostCertificates := False\<rparr>) HOST)
   \<and> validateSshCertificateType
         (template_example_com\<lparr>allowHostCertificates := False\<rparr>) USER = Inr ()"
  using validateSshCertificateType_policy
          [of HOST "template_example_com\<lparr>allowHostCertificates := False\<rparr>"]
        validateSshCertificateType_policy
          [of USER "template_example_com\<lparr>allowHostCertificates := False\<rparr>"]
  by (simp add: template_example_com_def)

subsection \<open>Principals\<close>

text \<open>
  Claim C10. On the empty list of principals \<open>validateSshCertificatePrincipals\<close>
  returns true, for User and for Host, whatever the template holds (absent lists
  included).
\<close>

theorem principals_empty:
  "validateSshCertificatePrincipals vu vh USER template [] = Inr True
   \<and> validateSshCertificatePrincipals vu vh HOST template [] = Inr True"
  by (simp add: validateSshCertificatePrincipals_def)

text \<open>
  Claim C4. If the type is User and the list contains the string \<open>*\<close>, the result is
  false; if the type is Host and some principal contains the character \<open>*\<close>, the result
  is false. Neither depends on the allowed users or hosts, nor on the validators.
\<close>

theorem principals_wildcard_rejected:
  "(''*'' \<in> set principals \<longrightarrow>
      validateSshCertificatePrincipals vu vh USER template principals = Inr False)
   \<and> ((\<exists>p \<in> set principals. CHR ''*'' \<in> set p) \<longrightarrow>
      validateSshCertificatePrincipals vu vh HOST template principals = Inr False)"
  by (auto simp: validateSshCertificatePrincipals_def every_iff userPrincipalCallback_def
        hostPrincipalCallback_def str_includes_char Let_def)

theorem principals_wildcard_rejected_witness:
  "''*'' \<in> set [''alice'', ''*'']
   \<and> validateSshCertificatePrincipals acceptAll acceptAll USER template_1h_2h
         [''alice'', ''*''] = Inr False
   \<and> (\<exists>p \<in> set [''web*.example.com'']. CHR ''*'' \<in> set p)
   \<and> validateSshCertificatePrincipals acceptAll acceptAll HOST template_1h_2h
         [''web*.example.com''] = Inr False"
  using principals_wildcard_rejected [of "[''alice'', ''*'']" acceptAll acceptAll template_1h_2h]
        principals_wildcard_rejected
          [of "[''web*.example.com'']" acceptAll acceptAll template_1h_2h]
  by simp

text \<open>
  Claim C9. For User and Host the result on a list is the conjunction, over its
  members, of the result on the one-element list; hence a permutation of the list
  gets the same result.
\<close>

theorem principals_conjunction:
  assumes "certType \<in> {USER, HOST}" and "mset principals = mset qs"
  shows "validateSshCertificatePrincipals vu vh certType template principals
           = Inr (\<forall>p \<in> set principals.
                    validateSshCertificatePrincipals vu vh certType template [p] = Inr True)
         \<and> validateSshCertificatePrincipals vu vh certType template qs
           = validateSshCertificatePrincipals vu vh certType template principals"
proof -
  have s: "set qs = set principals"
    using assms(2) by (metis set_mset_mset)
  from assms(1) show ?thesis
    by (auto simp: validateSshCertificatePrincipals_def every_iff Let_def s)
qed

theorem principals_conjunction_witness:
  "HOST \<in> {USER, HOST}
   \<and> mset [''a.example.com'', ''example.com''] = mset [''example.com'', ''a.example.com'']
   \<and> validateSshCertificatePrincipals acceptAll acceptAll HOST template_example_com
         [''a.example.com'', ''example.com'']
       = Inr (\<forall>p \<in> set [''a.example.com'', ''example.com''].
               validateSshCertificatePrincipals acceptAll acceptAll HOST template_example_com [p]
                 = Inr True)
   \<and> validateSshCertificatePrincipals acceptAll acceptAll HOST template_example_com
         [''example.com'', ''a.example.com'']
       = validateSshCertificatePrincipals acceptAll acceptAll HOST template_example_com
           [''a.example.com'', ''example.com'']"
  using principals_conjunction
          [of HOST "[''a.example.com'', ''example.com'']" "[''example.com'', ''a.example.com'']"
             acceptAll acceptAll template_example_com]
  by simp

text \<open>
  The result on one host principal, when the allowed hosts do not contain the bare
  \<open>*\<close>: the \<open>*\<close> test of the function, then the specification's rule.
\<close>

lemma host_principal_exact:
  assumes "''*'' \<notin> set (hostEntries template)"
  shows "validateSshCertificatePrincipals vu vh HOST template [p]
           = Inr (CHR ''*'' \<notin> set p \<and> specHostAccept vh template p)"
proof -
  have a: "orFalse (optcall (allowedHosts template) (\<lambda>hs. arr_includes hs ''*'')) = False"
    using assms
    by (auto simp: orFalse_def optcall_def hostEntries_def arr_includes_iff split: option.splits)
  have b: "truthy (optcall (allowedHosts template) (\<lambda>hs. some (allowedHostCallback p) hs))
            = (\<exists>e \<in> set (hostEntries template). allowedHostCallback p e)"
    by (auto simp: truthy_def optcall_def hostEntries_def some_iff split: option.splits)
  show ?thesis
    by (simp add: validateSshCertificatePrincipals_def a b some_allowedHostCallback
          hostPrincipalCallback_def str_includes_char specHostAccept_def)
qed

text \<open>
  Claim C5. For Host and a template whose allowed hosts do not contain the bare \<open>*\<close>,
  a principal is accepted iff it satisfies the hostname validator and is an exact
  member of the allowed hosts or ends in \<open>.D\<close> for some entry \<open>*.D\<close>. The rule is the
  specification's "otherwise" case: it is read for a principal that has passed the
  \<open>*\<close> test, or under a hostname validator that refuses a principal with a \<open>*\<close>.
\<close>

theorem host_principal_accept_spec:
  assumes "''*'' \<notin> set (hostEntries template)"
    and "CHR ''*'' \<in> set p \<longrightarrow> \<not> vh p"
  shows "validateSshCertificatePrincipals vu vh HOST template [p]
           = Inr (specHostAccept vh template p)"
proof -
  have "(CHR ''*'' \<notin> set p \<and> specHostAccept vh template p) = specHostAccept vh template p"
    using assms(2) by (auto simp: specHostAccept_def)
  with host_principal_exact [OF assms(1), of vu vh p] show ?thesis by simp
qed

text \<open>
  With the allowed hosts \<open>*.example.com\<close>: \<open>a.example.com\<close> is accepted,
  \<open>notexample.com\<close>, the bare \<open>example.com\<close> and \<open>*.example.com\<close> are rejected.
\<close>

theorem host_principal_accept_spec_witness:
  "''*'' \<notin> set (hostEntries template_example_com)
   \<and> CHR ''*'' \<notin> set ''a.example.com''
   \<and> \<not> noWildcard ''*.example.com''
   \<and> validateSshCertificatePrincipals noWildcard noWildcard HOST template_example_com
         [''a.example.com''] = Inr True
   \<and> validateSshCertificatePrincipals noWildcard noWildcard HOST template_example_com
         [''notexample.com''] = Inr False
   \<and> validateSshCertificatePrincipals noWildcard noWildcard HOST template_example_com
         [''example.com''] = Inr False
   \<and> validateSshCertificatePrincipals noWildcard noWildcard HOST template_example_com
         [''*.example.com''] = Inr False"
  using host_principal_accept_spec
          [of template_example_com "''a.example.com''" noWildcard noWildcard]
        host_principal_accept_spec
          [of template_example_com "''notexample.com''" noWildcard noWildcard]
        host_principal_accept_spec
          [of template_example_com "''example.com''" noWildcard noWildcard]
        host_principal_accept_spec
          [of template_example_com "''*.example.com''" noWildcard noWildcard]
  by (simp add: hostEntries_def template_example_com_def specHostAccept_def noWildcard_def
        endsWith_def)

subsection \<open>Time to live\<close>

text \<open>
  Claim C1. With no requested TTL the function returns the template's \<open>ttl\<close> as the
  parser gives it, in milliseconds: for \<open>1h\<close> the result is 3600000, not 3600. The
  other path divides by 1000: \<open>90m\<close> under a maximum of \<open>2h\<close> gives 5400, and \<open>3h\<close>
  is refused.
\<close>

theorem ttl_default_in_milliseconds:
  "validateSshCertificateTtl ms_sample template_1h_2h None = Inr (Num 3600000)
   \<and> validateSshCertificateTtl ms_sample template_1h_2h (Some ''90m'') = Inr (Num 5400)
   \<and> isBadRequest (validateSshCertificateTtl ms_sample template_1h_2h (Some ''3h''))"
  by (simp add: validateSshCertificateTtl_def ms_sample_def template_1h_2h_def)

text \<open>
  Claim C2, as amended. When a non-empty TTL is requested, the parser gives a number
  for it and for the template's \<open>maxTTL\<close>, and the function returns, the value returned
  is the requested TTL in seconds and is at most \<open>maxTTL\<close> in seconds.
\<close>

theorem ttl_requested_bounded:
  assumes "ttlArg = Some t" and "t \<noteq> []"
    and "ms t = Inr (Num a)" and "ms (maxTTL template) = Inr (Num m)"
    and "validateSshCertificateTtl ms template ttlArg = Inr v"
  shows "v = Num (a / 1000) \<and> a / 1000 \<le> m / 1000"
  using assms by (auto simp: validateSshCertificateTtl_def split: if_splits)

theorem ttl_requested_bounded_witness:
  "Some ''90m'' = Some ''90m'' \<and> ''90m'' \<noteq> [] \<and> ms_sample ''90m'' = Inr (Num 5400000)
   \<and> ms_sample (maxTTL template_1h_2h) = Inr (Num 7200000)
   \<and> validateSshCertificateTtl ms_sample template_1h_2h (Some ''90m'') = Inr (Num 5400)
   \<and> Num 5400 = Num (5400000 / 1000) \<and> (5400000::rat) / 1000 \<le> 7200000 / 1000"
proof -
  have h3: "ms_sample ''90m'' = Inr (Num 5400000)"
    by (simp add: ms_sample_def)
  have h4: "ms_sample (maxTTL template_1h_2h) = Inr (Num 7200000)"
    by (simp add: ms_sample_def template_1h_2h_def)
  have h5: "validateSshCertificateTtl ms_sample template_1h_2h (Some ''90m'') = Inr (Num 5400)"
    by (simp add: validateSshCertificateTtl_def ms_sample_def template_1h_2h_def)
  from ttl_requested_bounded [OF refl _ h3 h4 h5] h3 h4 h5 show ?thesis by simp
qed

text \<open>
  Claim C2 as first stated also promises a result above 0. Nothing in the function
  checks that: a requested TTL of \<open>0s\<close> is returned as 0.
\<close>

theorem ttl_zero_counterexample:
  "validateSshCertificateTtl ms_sample template_1h_2h (Some ''0s'') = Inr (Num 0)
   \<and> \<not> (0::rat) < 0"
  by (simp add: validateSshCertificateTtl_def ms_sample_def template_1h_2h_def)

subsection \<open>Serial numbers\<close>

lemma hexValue_hexDigit: "d < 16 \<Longrightarrow> hexValue (hexDigit d) = Some d"
proof -
  assume "d < 16"
  then have "d \<in> {0,1,2,3,4,5,6,7,8,9,10,11,12,13,14,15}"
    by simp arith
  then show ?thesis
    by (auto simp: hexValue_def hexDigit_def)
qed

lemma decimalDigit_digitChar: "d < 10 \<Longrightarrow> decimalDigit (digitChar d) = Some d"
proof -
  assume "d < 10"
  then have "d \<in> {0,1,2,3,4,5,6,7,8,9}"
    by simp arith
  then show ?thesis
    by (auto simp: decimalDigit_def digitChar_def)
qed

lemma parseHexDigits_toStringHex:
  "parseHexDigits acc (toStringHex bs) = Some (bigEndian acc bs)"
proof (induction bs arbitrary: acc)
  case Nil
  then show ?case by (simp add: toStringHex_def)
next
  case (Cons b bs)
  have hi: "unat b div 16 < 16"
    using unsigned_less [of b, where ?'a = nat] by (simp add: less_mult_imp_div_less)
  have lo: "unat b mod 16 < 16" by simp
  have v: "(acc * 16 + unat b div 16) * 16 + unat b mod 16 = acc * 256 + unat b"
    by (simp add: algebra_simps)
  have "parseHexDigits acc (toStringHex (b # bs))
          = parseHexDigits ((acc * 16 + unat b div 16) * 16 + unat b mod 16) (toStringHex bs)"
    by (simp add: toStringHex_def byteToHex_def hexValue_hexDigit [OF hi] hexValue_hexDigit [OF lo])
  also have "\<dots> = Some (bigEndian ((acc * 16 + unat b div 16) * 16 + unat b mod 16) bs)"
    by (rule Cons.IH)
  also have "\<dots> = Some (bigEndian acc (b # bs))"
    by (simp only: v bigEndian.simps)
  finally show ?case .
qed

lemma length_toStringHex: "length (toStringHex bs) = 2 * length bs"
  by (induction bs) (simp_all add: toStringHex_def byteToHex_def)

lemma BigInt_toStringHex:
  "bs \<noteq> [] \<Longrightarrow> BigInt (''0x'' @ toStringHex bs) = Some (bigEndian 0 bs)"
  by (cases bs) (simp_all add: BigInt_def startsWith_def slice_def length_toStringHex
       parseHexDigits_toStringHex)

lemma decimalFrom_snoc:
  "decimalFrom acc (xs @ [c]) =
     (case decimalFrom acc xs of
        None \<Rightarrow> None
      | Some v \<Rightarrow> (case decimalDigit c of None \<Rightarrow> None | Some d \<Rightarrow> Some (v * 10 + d)))"
  by (induction xs arbitrary: acc) (auto split: option.splits)

lemma decimalFrom_toString10: "decimalFrom 0 (toString10 n) = Some n"
proof (induction n rule: toString10.induct)
  case (1 n)
  show ?case
  proof (cases "n < 10")
    case True
    then show ?thesis
      by (subst toString10.simps) (simp add: decimalDigit_digitChar)
  next
    case False
    with 1 have "decimalFrom 0 (toString10 (n div 10)) = Some (n div 10)" by simp
    with False show ?thesis
      by (subst toString10.simps) (simp add: decimalFrom_snoc decimalDigit_digitChar)
  qed
qed

lemma toString10_nonempty: "toString10 n \<noteq> []"
  by (subst toString10.simps) simp

lemma decimalValue_toString10: "decimalValue (toString10 n) = Some n"
  by (simp add: decimalValue_def toString10_nonempty decimalFrom_toString10)

lemma bigEndian_acc: "bigEndian acc bs = acc * 256 ^ length bs + bigEndian 0 bs"
proof (induction bs arbitrary: acc)
  case Nil
  then show ?case by simp
next
  case (Cons b bs)
  show ?case
    using Cons [of "acc * 256 + unat b"] Cons [of "unat b"]
    by (simp add: algebra_simps)
qed

lemma bigEndian_less: "bigEndian 0 bs < 256 ^ length bs"
proof (induction bs rule: rev_induct)
  case Nil
  then show ?case by simp
next
  case (snoc b bs)
  have step: "bigEndian 0 (bs @ [b]) = bigEndian 0 bs * 256 + unat b"
    using bigEndian_acc [of "unat b0" "bs0 @ [b]" for b0 bs0]
    by (induction bs) (simp_all add: bigEndian_acc [of "unat b0" "bs0" for b0 bs0] algebra_simps)
  have "unat b < 256"
    using unsigned_less [of b, where ?'a = nat] by simp
  with snoc step show ?case by simp
qed

lemma top_bit_127: "\<not> bit (127 :: byte) 7"
  by (simp add: bit_iff_odd)

lemma masked_top_bit_clear: "\<not> bit ((b :: byte) AND 0x7f) 7"
  using top_bit_127 by (simp only: bit_and_iff) simp

lemma masked_byte_le: "unat ((b :: byte) AND 0x7f) \<le> 127"
proof -
  have "unat (b AND 127) \<le> unat (127 :: byte)"
    by (rule word_and_le1 [THEN word_le_nat_alt [THEN iffD1]])
  then show ?thesis by simp
qed

lemma bigEndian_masked_less:
  assumes "length bs = 8"
  shows "bigEndian 0 (bs[0 := (bs ! 0) AND 0x7f]) < 2 ^ 63"
proof -
  from assms obtain b rest where bs: "bs = b # rest" and r: "length rest = 7"
    by (cases bs) auto
  have "bigEndian 0 ((b AND 0x7f) # rest) = unat (b AND 0x7f) * 256 ^ 7 + bigEndian 0 rest"
    using bigEndian_acc [of "unat (b AND 0x7f)" rest] r by simp
  moreover have "bigEndian 0 rest < 256 ^ 7"
    using bigEndian_less [of rest] r by simp
  moreover have "unat (b AND 0x7f) * 256 ^ 7 \<le> 127 * 256 ^ 7"
    using masked_byte_le [of b] by (intro mult_right_mono) simp_all
  ultimately have "bigEndian 0 ((b AND 0x7f) # rest) < 128 * 256 ^ 7"
    by linarith
  then show ?thesis by (simp add: bs)
qed

text \<open>
  Claim C6. For eight random bytes, \<open>createSshCertSerialNumber\<close> returns the decimal
  string of the big-endian value of the bytes after the top bit of the first byte is
  cleared; the number that string denotes is that value, and it is below \<open>2 ^ 63\<close>.
\<close>

theorem serial_number_range:
  assumes "length randomBytes = 8"
  shows "\<exists>n. createSshCertSerialNumber randomBytes = Inr (toString10 n)
            \<and> n = bigEndian 0 (randomBytes[0 := (randomBytes ! 0) AND 0x7f])
            \<and> \<not> bit ((randomBytes[0 := (randomBytes ! 0) AND 0x7f]) ! 0) 7
            \<and> decimalValue (toString10 n) = Some n
            \<and> n < 2 ^ 63"
proof -
  let ?m = "randomBytes[0 := (randomBytes ! 0) AND 0x7f]"
  have ne: "?m \<noteq> []" using assms by auto
  have "createSshCertSerialNumber randomBytes = Inr (toString10 (bigEndian 0 ?m))"
    unfolding createSshCertSerialNumber_def Let_def BigInt_toStringHex [OF ne] by simp
  moreover have "\<not> bit (?m ! 0) 7"
  proof -
    have "?m ! 0 = (randomBytes ! 0) AND 0x7f"
      using assms by (simp only: nth_list_update_eq)
    then show ?thesis by (simp only: masked_top_bit_clear not_False_eq_True)
  qed
  ultimately show ?thesis
    using bigEndian_masked_less [OF assms] decimalValue_toString10 by blast
qed

theorem serial_number_range_witness:
  "length [0xff, 0xff, 0xff, 0xff, 0xff, 0xff, 0xff, 0xff :: byte] = 8
   \<and> createSshCertSerialNumber [0xff, 0xff, 0xff, 0xff, 0xff, 0xff, 0xff, 0xff]
       = Inr ''9223372036854775807''
   \<and> decimalValue ''9223372036854775807'' = Some 9223372036854775807
   \<and> (9223372036854775807 :: nat) < 2 ^ 63"
proof -
  have len: "length [0xff, 0xff, 0xff, 0xff, 0xff, 0xff, 0xff, 0xff :: byte] = 8"
    by simp
  have m: "(0xff :: byte) AND 0x7f = 0x7f"
    by simp
  have v: "bigEndian 0 [0x7f, 0xff, 0xff, 0xff, 0xff, 0xff, 0xff, 0xff :: byte]
             = 9223372036854775807"
    by simp
  have s: "toString10 9223372036854775807 = ''9223372036854775807''"
    by (simp add: toString10.simps digitChar_def)
  from serial_number_range [OF len] show ?thesis
    by (simp add: m v s)
qed

subsection \<open>Temporary files\<close>

lemma ensuresD: "ensures m Q \<Longrightarrow> fst (m s) = Inr r \<Longrightarrow> Q (snd (m s))"
  unfolding ensures_def by (erule allE [of _ s]) simp

lemma ensures_andThen:
  assumes "\<And>a. ensures (f a) Q"
  shows "ensures (andThen m f) Q"
  unfolding ensures_def
proof (intro allI)
  fix s
  show "case fst (andThen m f s) of Inl e \<Rightarrow> True | Inr a \<Rightarrow> Q (snd (andThen m f s))"
  proof (cases "m s")
    case (Pair r s1)
    show ?thesis
    proof (cases r)
      case (Inl e)
      with Pair show ?thesis by (simp add: andThen_def)
    next
      case (Inr a)
      with Pair have "andThen m f s = f a s1" by (simp add: andThen_def)
      moreover have "case fst (f a s1) of Inl e \<Rightarrow> True | Inr b \<Rightarrow> Q (snd (f a s1))"
        using assms [of a] unfolding ensures_def by (rule allE)
      ultimately show ?thesis by (simp split: sum.splits)
    qed
  qed
qed

lemma ensures_throw: "ensures (throw e) Q"
  by (simp add: ensures_def throw_def)

lemma ensures_unlink2:
  "ensures (andThen (unlinkSync a) (\<lambda>_. andThen (unlinkSync b) (\<lambda>_. ret r)))
     (\<lambda>s. s a = None \<and> s b = None)"
  by (auto simp: ensures_def andThen_def unlinkSync_def ret_def split: sum.splits)

lemma ensures_unlink3:
  "ensures (andThen (unlinkSync a) (\<lambda>_. andThen (unlinkSync b) (\<lambda>_.
              andThen (unlinkSync c) (\<lambda>_. ret r))))
     (\<lambda>s. s a = None \<and> s b = None \<and> s c = None)"
  by (auto simp: ensures_def andThen_def unlinkSync_def ret_def split: sum.splits)

lemma getSshPublicKey_ensures:
  "ensures (getSshPublicKey exec idBytes privateKey)
     (\<lambda>s. s (''ssh_key_'' @ toStringHex idBytes) = None
          \<and> s ((''ssh_key_'' @ toStringHex idBytes) @ ''.pub'') = None)"
  unfolding getSshPublicKey_def Let_def
  by (intro ensures_andThen ensures_unlink2)

lemma createSshKeyPair_ensures:
  "ensures (createSshKeyPair exec idBytes keyAlgorithm comment)
     (\<lambda>s. s (''ssh_key_'' @ toStringHex idBytes) = None
          \<and> s ((''ssh_key_'' @ toStringHex idBytes) @ ''.pub'') = None)"
proof (cases "keyTypeAndBits keyAlgorithm")
  case None
  then show ?thesis
    unfolding createSshKeyPair_def Let_def
    by (intro ensures_andThen) (simp add: ensures_throw)
next
  case (Some kb)
  obtain keyType keyBits where kb: "kb = (keyType, keyBits)" by (cases kb)
  show ?thesis
    unfolding createSshKeyPair_def Let_def Some kb option.case prod.case
    by (intro ensures_andThen ensures_unlink2)
qed

lemma createSshCert_ensures:
  "ensures (createSshCert exec idBytes serialBytes caPrivateKey userPublicKey keyId
              principals ttlSeconds certType)
     (\<lambda>s. s (''user_key_'' @ toStringHex idBytes @ ''.pub'') = None
          \<and> s (''ssh_ca_key_'' @ toStringHex idBytes) = None
          \<and> s (''user_key_'' @ toStringHex idBytes @ ''-cert.pub'') = None)"
proof (cases "createSshCertSerialNumber serialBytes")
  case (Inl e)
  then show ?thesis
    unfolding createSshCert_def Let_def
    by (intro ensures_andThen) (simp add: ensures_throw)
next
  case (Inr serialNumber)
  show ?thesis
    unfolding createSshCert_def Let_def Inr sum.case
    by (intro ensures_andThen ensures_unlink3)
qed

lemma toStringHex_zeroBytes: "toStringHex zeroBytes = ''0000000000000000''"
  by (simp add: toStringHex_def zeroBytes_def byteToHex_def hexDigit_def)

lemma serial_zeroBytes: "createSshCertSerialNumber zeroBytes = Inr ''0''"
  by (simp add: createSshCertSerialNumber_def toStringHex_def zeroBytes_def byteToHex_def
        hexDigit_def BigInt_def startsWith_def slice_def hexValue_def digitChar_def
        toString10.simps)

text \<open>
  On the success path the temporary files are unlinked: whenever one of the three
  functions returns normally, none of the files it names is left in the directory.
\<close>

lemma temp_files_deleted_on_success:
  "(fst (createSshCert exec idBytes serialBytes caPrivateKey userPublicKey keyId
           principals ttlSeconds certType s) = Inr r1 \<longrightarrow>
      (let s' = snd (createSshCert exec idBytes serialBytes caPrivateKey userPublicKey keyId
                       principals ttlSeconds certType s)
       in s' (''user_key_'' @ toStringHex idBytes @ ''.pub'') = None
          \<and> s' (''ssh_ca_key_'' @ toStringHex idBytes) = None
          \<and> s' (''user_key_'' @ toStringHex idBytes @ ''-cert.pub'') = None))
   \<and> (fst (createSshKeyPair exec idBytes keyAlgorithm comment s) = Inr r2 \<longrightarrow>
      (let s' = snd (createSshKeyPair exec idBytes keyAlgorithm comment s)
       in s' (''ssh_key_'' @ toStringHex idBytes) = None
          \<and> s' (''ssh_key_'' @ toStringHex idBytes @ ''.pub'') = None))
   \<and> (fst (getSshPublicKey exec idBytes privateKey s) = Inr r3 \<longrightarrow>
      (let s' = snd (getSshPublicKey exec idBytes privateKey s)
       in s' (''ssh_key_'' @ toStringHex idBytes) = None
          \<and> s' (''ssh_key_'' @ toStringHex idBytes @ ''.pub'') = None))"
  using ensuresD [OF createSshCert_ensures, of exec idBytes serialBytes caPrivateKey userPublicKey
                    keyId principals ttlSeconds certType s r1]
        ensuresD [OF createSshKeyPair_ensures, of exec idBytes keyAlgorithm comment s r2]
        ensuresD [OF getSshPublicKey_ensures, of exec idBytes privateKey s r3]
  by (simp add: Let_def)

text \<open>
  There is no \<^verbatim>\<open>try/finally\<close> around the external call. Whenever the process exits
  non-zero without touching the directory, \<open>execSync\<close> throws, the unlink calls are not
  reached, and the file with the private key stays, whatever the other arguments are.
\<close>

lemma createSshCert_exec_failure:
  assumes "\<And>command s. exec command s = (Some e, s)"
    and "createSshCertSerialNumber serialBytes = Inr serialNumber"
  shows "fst (createSshCert exec idBytes serialBytes caPrivateKey userPublicKey keyId
                principals ttlSeconds certType s) = Inl e
       \<and> snd (createSshCert exec idBytes serialBytes caPrivateKey userPublicKey keyId
                principals ttlSeconds certType s) (''ssh_ca_key_'' @ toStringHex idBytes)
           = Some caPrivateKey"
  by (simp add: createSshCert_def assms Let_def andThen_def
        unlinkIfExists_def existsSync_def ret_def writeFileSync_def chmodSync_def execSync_def
        unlinkSync_def)

lemma getSshPublicKey_exec_failure:
  assumes "\<And>command s. exec command s = (Some e, s)"
  shows "fst (getSshPublicKey exec idBytes privateKey s) = Inl e
       \<and> snd (getSshPublicKey exec idBytes privateKey s) (''ssh_key_'' @ toStringHex idBytes)
           = Some privateKey"
  by (simp add: getSshPublicKey_def assms Let_def andThen_def
        unlinkIfExists_def existsSync_def ret_def writeFileSync_def chmodSync_def execSync_def
        unlinkSync_def)

text \<open>
  Claim C3. The claim is that each of \<open>createSshCert\<close>, \<open>createSshKeyPair\<close> and
  \<open>getSshPublicKey\<close> deletes its temporary files on every outcome. The code does so
  only when it returns normally. Started in an empty directory: when the signing
  process exits non-zero, \<open>createSshCert\<close> throws and the file with the CA private key
  is left; the same when the process exits zero without writing the certificate and
  the read-back throws; \<open>getSshPublicKey\<close> leaves the private key when the process
  exits non-zero; \<open>createSshKeyPair\<close> leaves the generated private key when the public
  key file cannot be read back.
\<close>

theorem private_key_left_behind:
  "fst (createSshCert exec_fails zeroBytes zeroBytes
          ''CA-KEY'' ''USER-KEY'' ''alice'' [''alice''] 3600 USER Map.empty)
     = Inl (SystemError ''Command failed'')
   \<and> snd (createSshCert exec_fails zeroBytes zeroBytes
          ''CA-KEY'' ''USER-KEY'' ''alice'' [''alice''] 3600 USER Map.empty)
       ''ssh_ca_key_0000000000000000'' = Some ''CA-KEY''
   \<and> fst (createSshCert (exec_creating []) zeroBytes zeroBytes
          ''CA-KEY'' ''USER-KEY'' ''alice'' [''alice''] 3600 USER Map.empty)
     = Inl (SystemError ''ENOENT'')
   \<and> snd (createSshCert (exec_creating []) zeroBytes zeroBytes
          ''CA-KEY'' ''USER-KEY'' ''alice'' [''alice''] 3600 USER Map.empty)
       ''ssh_ca_key_0000000000000000'' = Some ''CA-KEY''
   \<and> fst (getSshPublicKey exec_fails zeroBytes ''CA-KEY'' Map.empty)
     = Inl (SystemError ''Command failed'')
   \<and> snd (getSshPublicKey exec_fails zeroBytes ''CA-KEY'' Map.empty)
       ''ssh_key_0000000000000000'' = Some ''CA-KEY''
   \<and> fst (createSshKeyPair (exec_creating [(''ssh_key_0000000000000000'', ''PRIV'')])
          zeroBytes RSA_2048 ''ca'' Map.empty)
     = Inl (SystemError ''ENOENT'')
   \<and> snd (createSshKeyPair (exec_creating [(''ssh_key_0000000000000000'', ''PRIV'')])
          zeroBytes RSA_2048 ''ca'' Map.empty)
       ''ssh_key_0000000000000000'' = Some ''PRIV''"
  by (simp add: createSshCert_def getSshPublicKey_def createSshKeyPair_def
        toStringHex_zeroBytes serial_zeroBytes Let_def andThen_def
        unlinkIfExists_def existsSync_def ret_def writeFileSync_def chmodSync_def execSync_def
        readFileSync_def exec_fails_def exec_creating_def)

end
